theory Spec2Isabelle
  imports Complex_Main
begin

section \<open>Runtime payload cache: shallow embedding\<close>

text \<open>
  The two plugins of the payload cache are embedded here: the Nitro plugin with its
  \<^verbatim>\<open>render:before\<close> and \<^verbatim>\<open>render:response\<close> hooks (the Payload Cache Gate) and
  the Nuxt plugin with its \<^verbatim>\<open>app:rendered\<close> hook (the Payload Serializer).

  Conventions of the embedding.
  \<^item> A JavaScript string is a \<open>string\<close>. Request paths are byte strings, so of the four
    line terminators that the regular expression atom \<^verbatim>\<open>.\<close> refuses only LF and CR can
    occur.
  \<^item> \<^verbatim>\<open>Date.now()\<close> is a parameter \<open>now\<close>, an integer number of milliseconds.
  \<^item> An exception is a value \<open>Inl e\<close> of a sum type; \<^verbatim>\<open>try/catch\<close> is a case
    distinction on it.
  \<^item> \<^verbatim>\<open>undefined\<close> is \<open>None\<close>.
  \<^item> Console output under \<^verbatim>\<open>import.meta.dev\<close> changes no state and is left out.
\<close>

subsection \<open>Constants\<close>

definition PAYLOAD_CACHE_TTL :: nat where
  "PAYLOAD_CACHE_TTL = 60"

definition PAYLOAD_CACHE_STALE_TTL :: nat where
  "PAYLOAD_CACHE_STALE_TTL = PAYLOAD_CACHE_TTL * 2"

subsection \<open>Regular expressions and string helpers\<close>

definition isLineTerminator :: "char \<Rightarrow> bool" where
  "isLineTerminator c = (c = CHR 0x0A \<or> c = CHR 0x0D)"

text \<open>\<^verbatim>\<open>.*$\<close>: the rest of the input, which must hold no line terminator.\<close>

definition dotStarEnd :: "string \<Rightarrow> bool" where
  "dotStarEnd s = list_all (\<lambda>c. \<not> isLineTerminator c) s"

text \<open>
  \<^verbatim>\<open>s.replace(/\?.*$/, '')\<close>: the leftmost match starts at the first question mark
  whose remainder holds no line terminator; it reaches the end of the input, so what is
  left is the text before it.
\<close>

fun stripQuery :: "string \<Rightarrow> string" where
  "stripQuery [] = []"
| "stripQuery (c # cs) =
     (if c = CHR ''?'' \<and> dotStarEnd cs then [] else c # stripQuery cs)"

text \<open>\<^verbatim>\<open>(?:\?.*)?$\<close>: either the input ends here, or a query follows up to the end.\<close>

fun optQueryEnd :: "string \<Rightarrow> bool" where
  "optQueryEnd [] = True"
| "optQueryEnd (c # cs) = (c = CHR ''?'' \<and> dotStarEnd cs)"

text \<open>
  \<^verbatim>\<open>/^[^?]*\/_payload\.json(?:\?.*)?$/.test(s)\<close>: the literal may start at any
  position that only characters other than the question mark precede.
\<close>

definition payloadSuffixHere :: "string \<Rightarrow> bool" where
  "payloadSuffixHere s =
     (take 14 s = ''/_payload.json'' \<and> optQueryEnd (drop 14 s))"

fun PAYLOAD_URL_RE_test :: "string \<Rightarrow> bool" where
  "PAYLOAD_URL_RE_test [] = False"
| "PAYLOAD_URL_RE_test (c # cs) =
     (payloadSuffixHere (c # cs) \<or> (c \<noteq> CHR ''?'' \<and> PAYLOAD_URL_RE_test cs))"

text \<open>\<^verbatim>\<open>s.lastIndexOf(c)\<close>: the last position of \<open>c\<close>, or \<open>-1\<close>.\<close>

definition lastIndexOf :: "string \<Rightarrow> char \<Rightarrow> int" where
  "lastIndexOf s c =
     (if c \<in> set s
      then int (length s) - 1 - int (length (takeWhile (\<lambda>x. x \<noteq> c) (rev s)))
      else - 1)"

text \<open>
  \<^verbatim>\<open>s.substring(start, stop)\<close>: both indices are clamped to the string and swapped
  when they come in the wrong order.
\<close>

definition substring :: "string \<Rightarrow> int \<Rightarrow> int \<Rightarrow> string" where
  "substring s start stop =
     (let len = int (length s);
          a = max 0 (min start len);
          b = max 0 (min stop len);
          lo = min a b;
          hi = max a b
      in take (nat (hi - lo)) (drop (nat lo) s))"

text \<open>\<^verbatim>\<open>s.includes(pat)\<close>.\<close>

fun includesStr :: "string \<Rightarrow> string \<Rightarrow> bool" where
  "includesStr [] pat = (pat = [])"
| "includesStr (c # cs) pat = (take (length pat) (c # cs) = pat \<or> includesStr cs pat)"

text \<open>\<^verbatim>\<open>s.replace(/\/$/, '')\<close>: a slash that ends the input is dropped.\<close>

definition stripTrailingSlash :: "string \<Rightarrow> string" where
  "stripTrailingSlash s = (if s \<noteq> [] \<and> last s = CHR ''/'' then butlast s else s)"

text \<open>\<^verbatim>\<open>a ?? b\<close>.\<close>

definition nullish :: "'a option \<Rightarrow> 'a \<Rightarrow> 'a" where
  "nullish a b = (case a of None \<Rightarrow> b | Some v \<Rightarrow> v)"

subsection \<open>Data model\<close>

datatype js_error = JsError string

type_synonym header_table = "(string \<times> string) list"

text \<open>The shape \<^verbatim>\<open>{ body, statusCode, headers }\<close> of a stashed or cached payload.\<close>

record PayloadResponse =
  body :: string
  statusCode :: int
  headers :: header_table

text \<open>\<^verbatim>\<open>interface CachedPayload\<close>: the payload's fields and the two bookkeeping fields.\<close>

record CachedPayload = PayloadResponse +
  cachedAt :: int
  buildId :: string

text \<open>
  A response body is tested with \<^verbatim>\<open>typeof body !== 'string'\<close> only, so every value
  that is not a string is one constructor.
\<close>

datatype body_value = StringBody string | NonStringBody

text \<open>The render response; every field may be missing.\<close>

record RenderResponse =
  res_body :: body_value
  res_statusCode :: "int option"
  res_statusMessage :: "string option"
  res_headers :: "header_table option"

text \<open>
  What \<^verbatim>\<open>getRouteRules(event)\<close> returns, reduced to the truthiness of the two rules
  the plugin reads.
\<close>

record RouteRules =
  isr :: bool
  cache :: bool

text \<open>
  The request event: its path, the route rules resolved for it, the context slot
  \<^verbatim>\<open>_cachedPayloadResponse\<close>, and the store writes handed to \<^verbatim>\<open>event.waitUntil\<close>
  so far (key and entry, in the order of the calls).
\<close>

record H3Event =
  path :: string
  routeRules :: RouteRules
  cachedPayloadResponse :: "PayloadResponse option"
  waitUntil :: "(string \<times> CachedPayload) list"

record RenderContext =
  event :: H3Event
  response :: "RenderResponse option"

subsection \<open>The key-value store\<close>

text \<open>
  The store is an external collaborator (the storage layer of the server framework);
  the repository holds no code of it. A store holds its items and, for each key,
  whether a read or a write of that key is rejected.
\<close>

record Storage =
  items :: "string \<Rightarrow> CachedPayload option"
  getItemFault :: "string \<Rightarrow> js_error option"
  setItemFault :: "string \<Rightarrow> js_error option"

text \<open>
  Modelled from the spec: \<^verbatim>\<open>get(key) -> CacheEntry | absent\<close> of the abstract store
  of section 6; a lookup may also fail (section 7, lookup failure).
\<close>

definition getItem :: "Storage \<Rightarrow> string \<Rightarrow> js_error + CachedPayload option" where
  "getItem st k = (case getItemFault st k of Some e \<Rightarrow> Inl e | None \<Rightarrow> Inr (items st k))"

text \<open>
  Modelled from the spec: \<^verbatim>\<open>set(key, entry) -> success | failure\<close> of the abstract
  store of section 6; a later read of the key gives what was last written.
\<close>

definition setItem :: "Storage \<Rightarrow> string \<Rightarrow> CachedPayload \<Rightarrow> js_error + Storage" where
  "setItem st k v =
     (case setItemFault st k of
        Some e \<Rightarrow> Inl e
      | None \<Rightarrow> Inr (st\<lparr>items := (items st)(k \<mapsto> v)\<rparr>))"

text \<open>
  The writes handed to \<^verbatim>\<open>waitUntil\<close> settle after the response; each carries
  \<^verbatim>\<open>.catch(...)\<close>, so a rejected write leaves the store as it was.
\<close>

fun settle :: "Storage \<Rightarrow> (string \<times> CachedPayload) list \<Rightarrow> Storage" where
  "settle st [] = st"
| "settle st ((k, v) # ws) =
     settle (case setItem st k v of Inl e \<Rightarrow> st | Inr st' \<Rightarrow> st') ws"

subsection \<open>The Nitro plugin (Payload Cache Gate)\<close>

definition getRouteFromPayloadUrl :: "string \<Rightarrow> string" where
  "getRouteFromPayloadUrl url =
     (let withoutQuery = stripQuery url;
          r = substring withoutQuery 0 (lastIndexOf withoutQuery CHR ''/'')
      in if r = [] then ''/'' else r)"

definition getCacheKey :: "string \<Rightarrow> string \<Rightarrow> string" where
  "getCacheKey build routePath = build @ '':'' @ routePath"

definition isISRRoute :: "H3Event \<Rightarrow> bool" where
  "isISRRoute ev = (isr (routeRules ev) \<or> cache (routeRules ev))"

text \<open>The response that a cache hit writes into the render context.\<close>

definition hitResponse :: "CachedPayload \<Rightarrow> RenderResponse" where
  "hitResponse cached =
     \<lparr>res_body = StringBody (body cached),
      res_statusCode = Some (statusCode cached),
      res_statusMessage = Some ''OK'',
      res_headers = Some (headers cached)\<rparr>"

text \<open>
  The body of the \<^verbatim>\<open>try\<close> block of \<^verbatim>\<open>render:before\<close>. The age is the quotient
  \<^verbatim>\<open>(Date.now() - cached.cachedAt) / 1000\<close>, taken here as a rational number: both
  timestamps are integers, the grace period is an integer, and a quotient of an integer
  by 1000 exceeds an integer in double precision exactly when it does so in the
  rationals.
\<close>

definition renderBeforeTry ::
  "string \<Rightarrow> Storage \<Rightarrow> int \<Rightarrow> string \<Rightarrow> RenderContext \<Rightarrow> js_error + RenderContext" where
  "renderBeforeTry build st now cacheKey ctx =
     (case getItem st cacheKey of
        Inl e \<Rightarrow> Inl e
      | Inr None \<Rightarrow> Inr ctx
      | Inr (Some cached) \<Rightarrow>
          if buildId cached \<noteq> build then Inr ctx
          else
            let age = (of_int (now - cachedAt cached) :: rat) / 1000
            in if age > of_nat PAYLOAD_CACHE_STALE_TTL then Inr ctx
               else Inr (ctx\<lparr>response := Some (hitResponse cached)\<rparr>))"

text \<open>
  The \<^verbatim>\<open>render:before\<close> hook. The \<^verbatim>\<open>catch\<close> clause only logs, so a failed block
  leaves the context as it was and the hook returns normally.
\<close>

definition renderBefore ::
  "string \<Rightarrow> Storage \<Rightarrow> int \<Rightarrow> RenderContext \<Rightarrow> js_error + RenderContext" where
  "renderBefore build st now ctx =
     (if \<not> PAYLOAD_URL_RE_test (path (event ctx)) then Inr ctx
      else
        let routePath = getRouteFromPayloadUrl (path (event ctx));
            cacheKey = getCacheKey build routePath
        in case renderBeforeTry build st now cacheKey ctx of
             Inl e \<Rightarrow> Inr ctx
           | Inr ctx' \<Rightarrow> Inr ctx')"

text \<open>The two fixed headers of a cached payload.\<close>

definition payloadHeaders :: header_table where
  "payloadHeaders =
     [(''content-type'', ''application/json;charset=utf-8''), (''x-powered-by'', ''Nuxt'')]"

text \<open>
  \<^verbatim>\<open>cachePayload\<close>: the entry is the payload with the time of the call and the
  build; the write goes to \<^verbatim>\<open>event.waitUntil\<close>.
\<close>

definition cachePayload ::
  "string \<Rightarrow> int \<Rightarrow> H3Event \<Rightarrow> string \<Rightarrow> PayloadResponse \<Rightarrow> H3Event" where
  "cachePayload build now ev routePath payload =
     (let cacheKey = getCacheKey build routePath;
          entry = \<lparr>body = body payload, statusCode = statusCode payload,
                   headers = headers payload, cachedAt = now, buildId = build\<rparr>
      in ev\<lparr>waitUntil := waitUntil ev @ [(cacheKey, entry)]\<rparr>)"

text \<open>
  \<^verbatim>\<open>response.headers?.['content-type']?.includes('text/html')\<close>, with
  \<^verbatim>\<open>undefined\<close> read as false, as the conjunction that uses it does.
\<close>

definition isHtmlResponse :: "RenderResponse \<Rightarrow> bool" where
  "isHtmlResponse res =
     (case res_headers res of
        None \<Rightarrow> False
      | Some h \<Rightarrow>
          (case map_of h ''content-type'' of
             None \<Rightarrow> False
           | Some v \<Rightarrow> includesStr v ''text/html''))"

text \<open>The route path of an HTML request: no query, no trailing slash except for the root.\<close>

definition htmlRoutePath :: "string \<Rightarrow> string" where
  "htmlRoutePath p =
     (let pathWithoutQuery = stripQuery p
      in if pathWithoutQuery = ''/'' then ''/'' else stripTrailingSlash pathWithoutQuery)"

text \<open>
  The \<^verbatim>\<open>render:response\<close> hook. A status code that is missing or zero is falsy.
\<close>

definition renderResponse ::
  "string \<Rightarrow> int \<Rightarrow> RenderResponse \<Rightarrow> RenderContext \<Rightarrow> RenderContext" where
  "renderResponse build now res ctx =
     (case res_statusCode res of
        None \<Rightarrow> ctx
      | Some sc \<Rightarrow>
          if sc = 0 \<or> sc \<ge> 400 then ctx
          else
            let isPayloadRequest = PAYLOAD_URL_RE_test (path (event ctx))
            in if isPayloadRequest then
                 (case res_body res of
                    NonStringBody \<Rightarrow> ctx
                  | StringBody b \<Rightarrow>
                      let routePath = getRouteFromPayloadUrl (path (event ctx))
                      in ctx\<lparr>event := cachePayload build now (event ctx) routePath
                           \<lparr>body = b, statusCode = nullish (res_statusCode res) 200,
                            headers = payloadHeaders\<rparr>\<rparr>)
               else if isHtmlResponse res \<and> isISRRoute (event ctx) then
                 (case cachedPayloadResponse (event ctx) of
                    None \<Rightarrow> ctx
                  | Some cachedPayload \<Rightarrow>
                      let routePath = htmlRoutePath (path (event ctx))
                      in ctx\<lparr>event :=
                           (cachePayload build now (event ctx) routePath cachedPayload)
                             \<lparr>cachedPayloadResponse := None\<rparr>\<rparr>)
               else ctx)"

text \<open>The writes that one run of \<^verbatim>\<open>render:response\<close> hands to \<^verbatim>\<open>waitUntil\<close>.\<close>

definition phaseBWrites ::
  "string \<Rightarrow> int \<Rightarrow> RenderResponse \<Rightarrow> RenderContext \<Rightarrow> (string \<times> CachedPayload) list" where
  "phaseBWrites build now res ctx =
     drop (length (waitUntil (event ctx)))
       (waitUntil (event (renderResponse build now res ctx)))"

subsection \<open>The render pipeline around the Gate\<close>

text \<open>What the pipeline delivers, and whether it called the renderer.\<close>

record Outcome =
  delivered :: RenderResponse
  rendered :: bool

text \<open>
  Modelled from the spec: the render pipeline of sections 2 and 6, an external
  collaborator that is no part of this repository. It calls the pre-render hook on a
  context without a response; a response set by the hook is used and the renderer is
  not called, otherwise the renderer produces the response. An exception of the hook
  or of the renderer fails the request. The post-render hook gets the response as an
  argument and returns nothing, so it has no part in what is delivered.
\<close>

definition renderHandler ::
  "string \<Rightarrow> Storage \<Rightarrow> int \<Rightarrow> (H3Event \<Rightarrow> js_error + RenderResponse) \<Rightarrow> H3Event
     \<Rightarrow> js_error + Outcome" where
  "renderHandler build st now render ev =
     (case renderBefore build st now \<lparr>event = ev, response = None\<rparr> of
        Inl e \<Rightarrow> Inl e
      | Inr ctx \<Rightarrow>
          (case response ctx of
             Some r \<Rightarrow> Inr \<lparr>delivered = r, rendered = False\<rparr>
           | None \<Rightarrow>
               (case render (event ctx) of
                  Inl e \<Rightarrow> Inl e
                | Inr r \<Rightarrow> Inr \<lparr>delivered = r, rendered = True\<rparr>)))"

subsection \<open>The Nuxt plugin (Payload Serializer)\<close>

text \<open>
  The payload of a render: its data object (the properties in order, over any type of
  values), the prerender timestamp and whether its \<^verbatim>\<open>error\<close> field is truthy.
\<close>

record 'v NuxtPayload =
  payload_data :: "(string \<times> 'v) list option"
  payload_prerenderedAt :: "int option"
  payload_error :: bool

text \<open>The object \<^verbatim>\<open>{ data, prerenderedAt }\<close> that is serialized.\<close>

record 'v SplitPayload =
  data :: "(string \<times> 'v) list"
  prerenderedAt :: "int option"

text \<open>
  The SSR context, as far as the hook reads it: \<^verbatim>\<open>noSSR\<close>, the truthiness of
  \<^verbatim>\<open>error\<close>, the payload, the reducer table \<^verbatim>\<open>~payloadReducers\<close> and the request
  event.
\<close>

record ('v, 'f) NuxtSSRContext =
  noSSR :: bool
  ssrError :: bool
  payload :: "'v NuxtPayload option"
  payloadReducers :: "(string \<times> 'f) list option"
  ssrEvent :: "H3Event option"

definition Object_keys :: "(string \<times> 'v) list \<Rightarrow> string list" where
  "Object_keys obj = map fst obj"

text \<open>
  The body of the \<^verbatim>\<open>try\<close> block of \<^verbatim>\<open>app:rendered\<close>. The serializer
  \<^verbatim>\<open>stringify\<close> of the devalue library is a parameter; it returns the string or
  throws. \<open>pl\<close> is \<^verbatim>\<open>ssrContext.payload\<close> and \<open>payloadData\<close> its data, which the
  hook has found to be present before the block.
\<close>

definition appRenderedTry ::
  "('v SplitPayload \<Rightarrow> (string \<times> 'f) list \<Rightarrow> js_error + string)
     \<Rightarrow> ('v, 'f) NuxtSSRContext \<Rightarrow> 'v NuxtPayload \<Rightarrow> (string \<times> 'v) list
     \<Rightarrow> js_error + ('v, 'f) NuxtSSRContext" where
  "appRenderedTry stringify ssrContext pl payloadData =
     (let splitPayload = \<lparr>data = payloadData, prerenderedAt = payload_prerenderedAt pl\<rparr>;
          reducers = nullish (payloadReducers ssrContext) []
      in case stringify splitPayload reducers of
           Inl e \<Rightarrow> Inl e
         | Inr b \<Rightarrow>
             (case ssrEvent ssrContext of
                None \<Rightarrow> Inr ssrContext
              | Some ev \<Rightarrow>
                  Inr (ssrContext\<lparr>ssrEvent := Some (ev\<lparr>cachedPayloadResponse :=
                    Some \<lparr>body = b, statusCode = 200,
                          headers = [(''content-type'', ''application/json;charset=utf-8''),
                                     (''x-powered-by'', ''Nuxt'')]\<rparr>\<rparr>)\<rparr>)))"

text \<open>
  The \<^verbatim>\<open>app:rendered\<close> hook on \<^verbatim>\<open>nuxtApp.ssrContext\<close>, which may be missing. The
  plugin registers the hook on the server only. The \<^verbatim>\<open>catch\<close> clause only logs.
\<close>

definition appRendered ::
  "('v SplitPayload \<Rightarrow> (string \<times> 'f) list \<Rightarrow> js_error + string)
     \<Rightarrow> ('v, 'f) NuxtSSRContext option \<Rightarrow> js_error + ('v, 'f) NuxtSSRContext option" where
  "appRendered stringify ssr =
     (case ssr of
        None \<Rightarrow> Inr None
      | Some ssrContext \<Rightarrow>
          if noSSR ssrContext \<or> ssrError ssrContext
             \<or> (case payload ssrContext of None \<Rightarrow> False | Some pl \<Rightarrow> payload_error pl)
          then Inr ssr
          else
            (case payload ssrContext of
               None \<Rightarrow> Inr ssr
             | Some pl \<Rightarrow>
                 (case payload_data pl of
                    None \<Rightarrow> Inr ssr
                  | Some payloadData \<Rightarrow>
                      if length (Object_keys payloadData) = 0 then Inr ssr
                      else
                        (case appRenderedTry stringify ssrContext pl payloadData of
                           Inl e \<Rightarrow> Inr ssr
                         | Inr ssrContext' \<Rightarrow> Inr (Some ssrContext')))))"

subsection \<open>Example inputs\<close>

text \<open>Concrete requests, entries and stores at which the theorems below are instantiated.\<close>

definition exEntry :: CachedPayload where
  "exEntry = \<lparr>body = ''[1]'', statusCode = 200, headers = payloadHeaders,
              cachedAt = 1000000, buildId = ''B1''\<rparr>"

definition exStore :: Storage where
  "exStore = \<lparr>items = [''B1:/a/b'' \<mapsto> exEntry],
              getItemFault = (\<lambda>k. None), setItemFault = (\<lambda>k. None)\<rparr>"

definition exPayloadEvent :: H3Event where
  "exPayloadEvent = \<lparr>path = ''/a/b/_payload.json?x=1'',
       routeRules = \<lparr>isr = True, cache = False\<rparr>,
       cachedPayloadResponse = None, waitUntil = []\<rparr>"

definition exPayloadCtx :: RenderContext where
  "exPayloadCtx = \<lparr>event = exPayloadEvent, response = None\<rparr>"

definition exForeignStore :: Storage where
  "exForeignStore = \<lparr>items = [''B2:/a/b'' \<mapsto> exEntry],
              getItemFault = (\<lambda>k. None), setItemFault = (\<lambda>k. None)\<rparr>"

definition exFailingStore :: Storage where
  "exFailingStore = \<lparr>items = [''B1:/a/b'' \<mapsto> exEntry],
              getItemFault = (\<lambda>k. Some (JsError ''store unreachable'')),
              setItemFault = (\<lambda>k. None)\<rparr>"

definition exRender :: "H3Event \<Rightarrow> js_error + RenderResponse" where
  "exRender ev = Inr \<lparr>res_body = StringBody ''[2]'', res_statusCode = Some 200,
                       res_statusMessage = None, res_headers = None\<rparr>"

definition exErrorResponse :: RenderResponse where
  "exErrorResponse = \<lparr>res_body = StringBody ''[3]'', res_statusCode = Some 500,
       res_statusMessage = None,
       res_headers = Some [(''content-type'', ''text/html;charset=utf-8'')]\<rparr>"

definition exArtifact :: PayloadResponse where
  "exArtifact = \<lparr>body = ''[4]'', statusCode = 200, headers = payloadHeaders\<rparr>"

definition exHtmlEvent :: H3Event where
  "exHtmlEvent = \<lparr>path = ''/a/b/?x=1'',
       routeRules = \<lparr>isr = True, cache = False\<rparr>,
       cachedPayloadResponse = Some exArtifact, waitUntil = []\<rparr>"

definition exHtmlCtx :: RenderContext where
  "exHtmlCtx = \<lparr>event = exHtmlEvent, response = None\<rparr>"

definition exHitOutcome :: "js_error + Outcome" where
  "exHitOutcome = renderHandler ''B1'' exStore (cachedAt exEntry + 1000)
                    (\<lambda>ev. Inl (JsError ''rendered'')) exPayloadEvent"

definition exOkResponse :: RenderResponse where
  "exOkResponse = \<lparr>res_body = StringBody ''[2]'', res_statusCode = Some 200,
       res_statusMessage = None, res_headers = None\<rparr>"

definition exHtmlResponse :: RenderResponse where
  "exHtmlResponse = \<lparr>res_body = StringBody ''<html></html>'', res_statusCode = Some 302,
       res_statusMessage = None,
       res_headers = Some [(''content-type'', ''text/html;charset=utf-8'')]\<rparr>"

definition exStringify ::
  "int SplitPayload \<Rightarrow> (string \<times> unit) list \<Rightarrow> js_error + string" where
  "exStringify p reducers =
     (if prerenderedAt p = None then Inl (JsError ''not serializable'')
      else Inr (concat (map fst (data p))))"

definition exSsrEvent :: H3Event where
  "exSsrEvent = \<lparr>path = ''/a/b/?x=1'',
       routeRules = \<lparr>isr = True, cache = False\<rparr>,
       cachedPayloadResponse = None, waitUntil = []\<rparr>"

definition exNuxtPayload :: "int NuxtPayload" where
  "exNuxtPayload = \<lparr>payload_data = Some [(''k'', 1)],
       payload_prerenderedAt = Some 5, payload_error = False\<rparr>"

definition exSsr :: "(int, unit) NuxtSSRContext" where
  "exSsr = \<lparr>noSSR = False, ssrError = False, payload = Some exNuxtPayload,
            payloadReducers = None, ssrEvent = Some exSsrEvent\<rparr>"

definition exStashedEvent :: H3Event where
  "exStashedEvent = exSsrEvent\<lparr>cachedPayloadResponse :=
     Some \<lparr>body = ''k'', statusCode = 200,
           headers = [(''content-type'', ''application/json;charset=utf-8''),
                      (''x-powered-by'', ''Nuxt'')]\<rparr>\<rparr>"

section \<open>Properties\<close>

subsection \<open>Facts about the regular expressions and the route paths\<close>

text \<open>
  The data-only pattern matches exactly the strings that split into a part without a
  question mark, the literal suffix and an optional query.
\<close>

lemma payloadSuffixHere_iff:
  "payloadSuffixHere s \<longleftrightarrow> (\<exists>r. s = ''/_payload.json'' @ r \<and> optQueryEnd r)"
proof
  assume h: "payloadSuffixHere s"
  then have "s = take 14 s @ drop 14 s" by simp
  with h show "\<exists>r. s = ''/_payload.json'' @ r \<and> optQueryEnd r"
    unfolding payloadSuffixHere_def by metis
next
  assume "\<exists>r. s = ''/_payload.json'' @ r \<and> optQueryEnd r"
  then show "payloadSuffixHere s" by (auto simp add: payloadSuffixHere_def)
qed

lemma PAYLOAD_URL_RE_test_iff:
  "PAYLOAD_URL_RE_test s \<longleftrightarrow>
     (\<exists>p r. s = p @ ''/_payload.json'' @ r \<and> CHR ''?'' \<notin> set p \<and> optQueryEnd r)"
proof (induction s)
  case Nil
  show ?case by simp
next
  case (Cons c cs)
  show ?case
  proof
    assume "PAYLOAD_URL_RE_test (c # cs)"
    then consider "payloadSuffixHere (c # cs)" | "c \<noteq> CHR ''?''" "PAYLOAD_URL_RE_test cs"
      by auto
    then show "\<exists>p r. c # cs = p @ ''/_payload.json'' @ r \<and> CHR ''?'' \<notin> set p \<and> optQueryEnd r"
    proof cases
      case 1
      then obtain r where "c # cs = [] @ ''/_payload.json'' @ r" "optQueryEnd r"
        unfolding payloadSuffixHere_iff by auto
      then show ?thesis by (metis empty_iff list.set(1))
    next
      case 2
      with Cons.IH obtain p r where
        "cs = p @ ''/_payload.json'' @ r" "CHR ''?'' \<notin> set p" "optQueryEnd r" by blast
      with 2(1) have "c # cs = (c # p) @ ''/_payload.json'' @ r
          \<and> CHR ''?'' \<notin> set (c # p) \<and> optQueryEnd r"
        by simp
      then show ?thesis by blast
    qed
  next
    assume "\<exists>p r. c # cs = p @ ''/_payload.json'' @ r \<and> CHR ''?'' \<notin> set p \<and> optQueryEnd r"
    then obtain p r where e: "c # cs = p @ ''/_payload.json'' @ r"
      and q: "CHR ''?'' \<notin> set p" and o: "optQueryEnd r" by blast
    show "PAYLOAD_URL_RE_test (c # cs)"
    proof (cases p)
      case Nil
      with e o have "payloadSuffixHere (c # cs)" unfolding payloadSuffixHere_iff by auto
      then show ?thesis by simp
    next
      case (Cons a p')
      with e q have "c \<noteq> CHR ''?''" "cs = p' @ ''/_payload.json'' @ r" "CHR ''?'' \<notin> set p'"
        by auto
      with o Cons.IH show ?thesis by auto
    qed
  qed
qed

lemma stripQuery_no_query: "CHR ''?'' \<notin> set xs \<Longrightarrow> stripQuery xs = xs"
  by (induction xs) auto

lemma stripQuery_query:
  "CHR ''?'' \<notin> set xs \<Longrightarrow> dotStarEnd q \<Longrightarrow> stripQuery (xs @ CHR ''?'' # q) = xs"
  by (induction xs) auto

lemma lastIndexOf_payload_suffix:
  "lastIndexOf (p @ ''/_payload.json'') CHR ''/'' = int (length p)"
  by (simp add: lastIndexOf_def)

lemma substring_prefix: "substring (p @ s) 0 (int (length p)) = p"
  by (simp add: substring_def Let_def)

lemma getRouteFromPayloadUrl_plain:
  assumes "CHR ''?'' \<notin> set p"
  shows "getRouteFromPayloadUrl (p @ ''/_payload.json'') = (if p = [] then ''/'' else p)"
proof -
  have "stripQuery (p @ ''/_payload.json'') = p @ ''/_payload.json''"
    using assms by (simp add: stripQuery_no_query)
  then show ?thesis
    by (simp add: getRouteFromPayloadUrl_def Let_def lastIndexOf_payload_suffix substring_prefix
        del: append.simps)
qed

lemma getRouteFromPayloadUrl_query:
  assumes "CHR ''?'' \<notin> set p" and "dotStarEnd q"
  shows "getRouteFromPayloadUrl (p @ ''/_payload.json'' @ CHR ''?'' # q)
           = (if p = [] then ''/'' else p)"
proof -
  have "stripQuery ((p @ ''/_payload.json'') @ CHR ''?'' # q) = p @ ''/_payload.json''"
    using assms by (intro stripQuery_query) auto
  then have "stripQuery (p @ ''/_payload.json'' @ CHR ''?'' # q) = p @ ''/_payload.json''"
    by simp
  then show ?thesis
    unfolding getRouteFromPayloadUrl_def Let_def
    by (simp add: lastIndexOf_payload_suffix substring_prefix del: append.simps)
qed

lemma htmlRoutePath_trailing_slash:
  assumes "CHR ''?'' \<notin> set p" and "p \<noteq> []" and "last p \<noteq> CHR ''/''"
  shows "htmlRoutePath (p @ ''/'') = p" and "htmlRoutePath p = p"
proof -
  have "stripQuery (p @ ''/'') = p @ ''/''"
    using assms(1) by (simp add: stripQuery_no_query)
  then show "htmlRoutePath (p @ ''/'') = p"
    using assms(2) by (simp add: htmlRoutePath_def stripTrailingSlash_def)
  have "stripQuery p = p" using assms(1) by (simp add: stripQuery_no_query)
  then show "htmlRoutePath p = p"
    using assms(2,3) by (auto simp add: htmlRoutePath_def stripTrailingSlash_def)
qed

subsection \<open>Facts about the pre-render hook\<close>

lemma PAYLOAD_CACHE_STALE_TTL_value: "PAYLOAD_CACHE_STALE_TTL = 120"
  by (simp add: PAYLOAD_CACHE_STALE_TTL_def PAYLOAD_CACHE_TTL_def)

lemma age_check:
  "((of_int d :: rat) / 1000 > of_nat PAYLOAD_CACHE_STALE_TTL) = (d > 120000)"
  by (simp add: PAYLOAD_CACHE_STALE_TTL_value pos_less_divide_eq)

lemma renderBeforeTry_found:
  assumes "getItem st k = Inr (Some cached)"
  shows "renderBeforeTry build st now k ctx =
           (if buildId cached \<noteq> build then Inr ctx
            else if now - cachedAt cached > 120000 then Inr ctx
            else Inr (ctx\<lparr>response := Some (hitResponse cached)\<rparr>))"
  unfolding renderBeforeTry_def Let_def age_check using assms by simp

lemma renderBefore_payload:
  assumes "PAYLOAD_URL_RE_test (path (event ctx))"
  shows "renderBefore build st now ctx =
           (case renderBeforeTry build st now
                   (getCacheKey build (getRouteFromPayloadUrl (path (event ctx)))) ctx of
              Inl e \<Rightarrow> Inr ctx | Inr ctx' \<Rightarrow> Inr ctx')"
  using assms by (simp add: renderBefore_def Let_def)

lemma renderBefore_total: "\<exists>c. renderBefore build st now ctx = Inr c"
  by (simp add: renderBefore_def Let_def split: sum.splits)

lemma ex_path_matches: "PAYLOAD_URL_RE_test (path (event exPayloadCtx))"
  by (simp add: exPayloadCtx_def exPayloadEvent_def payloadSuffixHere_def dotStarEnd_def
      isLineTerminator_def)

lemma ex_route: "getRouteFromPayloadUrl (path (event exPayloadCtx)) = ''/a/b''"
  by (simp add: exPayloadCtx_def exPayloadEvent_def getRouteFromPayloadUrl_def substring_def
      lastIndexOf_def dotStarEnd_def isLineTerminator_def Let_def)

lemma ex_lookup: "getItem exStore (getCacheKey ''B1'' ''/a/b'') = Inr (Some exEntry)"
  by (simp add: getItem_def exStore_def getCacheKey_def)

subsection \<open>Facts about the post-render hook and the store\<close>

lemma phaseBWrites_unchanged:
  "renderResponse build now res ctx = ctx \<Longrightarrow> phaseBWrites build now res ctx = []"
  by (simp add: phaseBWrites_def)

lemma renderResponse_ok_status:
  assumes "res_statusCode res = Some sc" and "sc \<noteq> 0" and "sc < 400"
  shows "renderResponse build now res ctx =
     (if PAYLOAD_URL_RE_test (path (event ctx)) then
        (case res_body res of
           NonStringBody \<Rightarrow> ctx
         | StringBody b \<Rightarrow>
             ctx\<lparr>event := cachePayload build now (event ctx)
                    (getRouteFromPayloadUrl (path (event ctx)))
                    \<lparr>body = b, statusCode = sc, headers = payloadHeaders\<rparr>\<rparr>)
      else if isHtmlResponse res \<and> isISRRoute (event ctx) then
        (case cachedPayloadResponse (event ctx) of
           None \<Rightarrow> ctx
         | Some cachedPayload \<Rightarrow>
             ctx\<lparr>event := (cachePayload build now (event ctx)
                               (htmlRoutePath (path (event ctx))) cachedPayload)
                             \<lparr>cachedPayloadResponse := None\<rparr>\<rparr>)
      else ctx)"
  using assms
  by (simp add: renderResponse_def Let_def nullish_def
      split: body_value.split option.split)

lemma waitUntil_cachePayload:
  "waitUntil (cachePayload build now ev routePath pr) =
     waitUntil ev @ [(getCacheKey build routePath,
        \<lparr>body = body pr, statusCode = statusCode pr, headers = headers pr,
         cachedAt = now, buildId = build\<rparr>)]"
  by (simp add: cachePayload_def Let_def)

lemma settle_single:
  "setItemFault st k = None \<Longrightarrow> items (settle st [(k, v)]) k = Some v"
  by (simp add: setItem_def)

lemma settle_single_fault:
  "setItemFault st k = Some e \<Longrightarrow> settle st [(k, v)] = st"
  by (simp add: setItem_def)

lemma getItem_settle_single:
  assumes "setItemFault st k = None" and "getItemFault st k = None"
  shows "getItem (settle st [(k, v)]) k = Inr (Some v)"
  using assms by (simp add: setItem_def getItem_def)

subsection \<open>Facts about the Serializer\<close>

lemma appRendered_stash:
  assumes "ssrEvent ssr = Some ev"
    and "payload ssr = Some pl" and "payload_data pl = Some d" and "Object_keys d \<noteq> []"
    and "\<not> noSSR ssr" and "\<not> ssrError ssr" and "\<not> payload_error pl"
    and "stringify \<lparr>data = d, prerenderedAt = payload_prerenderedAt pl\<rparr>
           (nullish (payloadReducers ssr) []) = Inr b"
  shows "appRendered stringify (Some ssr)
           = Inr (Some (ssr\<lparr>ssrEvent := Some (ev\<lparr>cachedPayloadResponse :=
               Some \<lparr>body = b, statusCode = 200,
                     headers = [(''content-type'', ''application/json;charset=utf-8''),
                                (''x-powered-by'', ''Nuxt'')]\<rparr>\<rparr>)\<rparr>))"
  using assms by (simp add: appRendered_def appRenderedTry_def Let_def)

lemma appRendered_changed:
  assumes "appRendered stringify (Some ssr) \<noteq> Inr (Some ssr)"
  shows "\<exists>ev pl d b. ssrEvent ssr = Some ev
           \<and> payload ssr = Some pl \<and> payload_data pl = Some d \<and> Object_keys d \<noteq> []
           \<and> \<not> noSSR ssr \<and> \<not> ssrError ssr \<and> \<not> payload_error pl
           \<and> stringify \<lparr>data = d, prerenderedAt = payload_prerenderedAt pl\<rparr>
                (nullish (payloadReducers ssr) []) = Inr b"
  using assms
  by (auto simp add: appRendered_def appRenderedTry_def Let_def
      split: if_splits option.splits sum.splits)

lemma appRendered_total: "\<exists>r. appRendered stringify s = Inr r"
  by (auto simp add: appRendered_def split: option.splits sum.splits)

lemma appRendered_result:
  assumes "appRendered stringify (Some ssr) = Inr (Some ssr')" and "ssrEvent ssr = Some ev"
  shows "ssr' = ssr
     \<or> (\<exists>b. ssr' = ssr\<lparr>ssrEvent := Some (ev\<lparr>cachedPayloadResponse :=
               Some \<lparr>body = b, statusCode = 200,
                     headers = [(''content-type'', ''application/json;charset=utf-8''),
                                (''x-powered-by'', ''Nuxt'')]\<rparr>\<rparr>)\<rparr>)"
  using assms
  by (auto simp add: appRendered_def appRenderedTry_def Let_def
      split: if_splits option.splits sum.splits)

lemma serializer_artifact:
  assumes "ssrEvent ssr = Some ev" and "cachedPayloadResponse ev = None"
    and "appRendered stringify (Some ssr) = Inr (Some ssr')"
    and "ssrEvent ssr' = Some ev'" and "cachedPayloadResponse ev' = Some art"
  shows "statusCode art = 200
     \<and> headers art = [(''content-type'', ''application/json;charset=utf-8''),
                       (''x-powered-by'', ''Nuxt'')]"
  using appRendered_result [OF assms(3) assms(1)] assms(1,2,4,5) by auto

lemma ex_stash_conditions:
  "payload exSsr = Some exNuxtPayload \<and> payload_data exNuxtPayload = Some [(''k'', 1)]
   \<and> Object_keys [(''k'', 1::int)] \<noteq> []
   \<and> \<not> noSSR exSsr \<and> \<not> ssrError exSsr \<and> \<not> payload_error exNuxtPayload
   \<and> exStringify \<lparr>data = [(''k'', 1)], prerenderedAt = payload_prerenderedAt exNuxtPayload\<rparr>
         (nullish (payloadReducers exSsr) []) = Inr ''k''"
  by (simp add: exSsr_def exNuxtPayload_def Object_keys_def exStringify_def)

subsection \<open>C1: the staleness boundary\<close>

text \<open>
  C1. On a data-only request whose entry exists and carries the current build, the hook
  serves the entry exactly when its age \<open>now - cachedAt\<close> is at most twice the TTL of 60
  seconds (120000 milliseconds): up to that age the context gets the response with the
  entry's body, status code and headers (and the status message \<open>OK\<close>), beyond it the
  context is left as it was. An entry of age TTL + 1s is therefore served, one older
  than 2 x TTL is not.
\<close>

theorem staleness_boundary:
  assumes "PAYLOAD_URL_RE_test (path (event ctx))"
    and "getItem st (getCacheKey build (getRouteFromPayloadUrl (path (event ctx))))
           = Inr (Some cached)"
    and "buildId cached = build"
  shows "PAYLOAD_CACHE_TTL = 60
     \<and> (now - cachedAt cached \<le> 1000 * (2 * int PAYLOAD_CACHE_TTL) \<longrightarrow>
          renderBefore build st now ctx
            = Inr (ctx\<lparr>response :=
                Some \<lparr>res_body = StringBody (body cached),
                      res_statusCode = Some (statusCode cached),
                      res_statusMessage = Some ''OK'',
                      res_headers = Some (headers cached)\<rparr>\<rparr>))
     \<and> (now - cachedAt cached > 1000 * (2 * int PAYLOAD_CACHE_TTL) \<longrightarrow>
          renderBefore build st now ctx = Inr ctx)"
proof -
  have ttl: "PAYLOAD_CACHE_TTL = 60" by (simp add: PAYLOAD_CACHE_TTL_def)
  have "renderBefore build st now ctx =
          (if now - cachedAt cached > 120000 then Inr ctx
           else Inr (ctx\<lparr>response := Some (hitResponse cached)\<rparr>))"
    by (simp add: renderBefore_payload [OF assms(1)] renderBeforeTry_found [OF assms(2)]
        assms(3))
  with ttl show ?thesis by (simp add: hitResponse_def)
qed

theorem staleness_boundary_witness:
  "PAYLOAD_URL_RE_test (path (event exPayloadCtx))
   \<and> getItem exStore
        (getCacheKey ''B1'' (getRouteFromPayloadUrl (path (event exPayloadCtx))))
        = Inr (Some exEntry)
   \<and> buildId exEntry = ''B1''
   \<and> renderBefore ''B1'' exStore (cachedAt exEntry + 61000) exPayloadCtx
        = Inr (exPayloadCtx\<lparr>response :=
            Some \<lparr>res_body = StringBody ''[1]'', res_statusCode = Some 200,
                  res_statusMessage = Some ''OK'',
                  res_headers = Some [(''content-type'', ''application/json;charset=utf-8''),
                                      (''x-powered-by'', ''Nuxt'')]\<rparr>\<rparr>)
   \<and> renderBefore ''B1'' exStore (cachedAt exEntry + 120000) exPayloadCtx
        = Inr (exPayloadCtx\<lparr>response :=
            Some \<lparr>res_body = StringBody ''[1]'', res_statusCode = Some 200,
                  res_statusMessage = Some ''OK'',
                  res_headers = Some [(''content-type'', ''application/json;charset=utf-8''),
                                      (''x-powered-by'', ''Nuxt'')]\<rparr>\<rparr>)
   \<and> renderBefore ''B1'' exStore (cachedAt exEntry + 120001) exPayloadCtx
        = Inr exPayloadCtx
   \<and> response exPayloadCtx = None"
proof -
  have p: "PAYLOAD_URL_RE_test (path (event exPayloadCtx))" by (rule ex_path_matches)
  have g: "getItem exStore
             (getCacheKey ''B1'' (getRouteFromPayloadUrl (path (event exPayloadCtx))))
             = Inr (Some exEntry)"
    by (simp add: ex_route ex_lookup)
  have b: "buildId exEntry = ''B1''" by (simp add: exEntry_def)
  have t: "PAYLOAD_CACHE_TTL = 60" by (simp add: PAYLOAD_CACHE_TTL_def)
  have f: "body exEntry = ''[1]''" "statusCode exEntry = 200"
    "headers exEntry = [(''content-type'', ''application/json;charset=utf-8''),
                        (''x-powered-by'', ''Nuxt'')]"
    by (simp_all add: exEntry_def payloadHeaders_def)
  have r1: "renderBefore ''B1'' exStore (cachedAt exEntry + 61000) exPayloadCtx
        = Inr (exPayloadCtx\<lparr>response :=
            Some \<lparr>res_body = StringBody ''[1]'', res_statusCode = Some 200,
                  res_statusMessage = Some ''OK'',
                  res_headers = Some [(''content-type'', ''application/json;charset=utf-8''),
                                      (''x-powered-by'', ''Nuxt'')]\<rparr>\<rparr>)"
    using staleness_boundary [OF p g b, of "cachedAt exEntry + 61000"] by (simp add: t f)
  have r2: "renderBefore ''B1'' exStore (cachedAt exEntry + 120000) exPayloadCtx
        = Inr (exPayloadCtx\<lparr>response :=
            Some \<lparr>res_body = StringBody ''[1]'', res_statusCode = Some 200,
                  res_statusMessage = Some ''OK'',
                  res_headers = Some [(''content-type'', ''application/json;charset=utf-8''),
                                      (''x-powered-by'', ''Nuxt'')]\<rparr>\<rparr>)"
    using staleness_boundary [OF p g b, of "cachedAt exEntry + 120000"] by (simp add: t f)
  have r3: "renderBefore ''B1'' exStore (cachedAt exEntry + 120001) exPayloadCtx
        = Inr exPayloadCtx"
    using staleness_boundary [OF p g b, of "cachedAt exEntry + 120001"] by (simp add: t)
  have n: "response exPayloadCtx = None" by (simp add: exPayloadCtx_def)
  from p g b r1 r2 r3 n show ?thesis by blast
qed

subsection \<open>C2: build isolation\<close>

text \<open>
  C2. On a data-only request, an entry whose build differs from the running build is
  never served, whatever its age: the hook leaves the context as it was, which is also
  what it does when the store holds nothing under the key.
\<close>

theorem build_isolation:
  assumes "PAYLOAD_URL_RE_test (path (event ctx))"
    and "getItem st (getCacheKey build (getRouteFromPayloadUrl (path (event ctx))))
           = Inr (Some cached)"
    and "buildId cached \<noteq> build"
  shows "renderBefore build st now ctx = Inr ctx
     \<and> renderBefore build st now ctx
         = renderBefore build
             (st\<lparr>items := (items st)
                 (getCacheKey build (getRouteFromPayloadUrl (path (event ctx))) := None)\<rparr>)
             now ctx"
proof -
  let ?k = "getCacheKey build (getRouteFromPayloadUrl (path (event ctx)))"
  let ?st' = "st\<lparr>items := (items st)(?k := None)\<rparr>"
  have hit: "renderBefore build st now ctx = Inr ctx"
    by (simp add: renderBefore_payload [OF assms(1)] renderBeforeTry_found [OF assms(2)]
        assms(3))
  have "getItem ?st' ?k = Inr None"
    using assms(2) by (simp add: getItem_def split: option.splits)
  then have miss: "renderBefore build ?st' now ctx = Inr ctx"
    by (simp add: renderBefore_payload [OF assms(1)] renderBeforeTry_def)
  from hit miss show ?thesis by simp
qed

theorem build_isolation_witness:
  "PAYLOAD_URL_RE_test (path (event exPayloadCtx))
   \<and> getItem exForeignStore
        (getCacheKey ''B2'' (getRouteFromPayloadUrl (path (event exPayloadCtx))))
        = Inr (Some exEntry)
   \<and> buildId exEntry \<noteq> ''B2''
   \<and> renderBefore ''B2'' exForeignStore (cachedAt exEntry) exPayloadCtx = Inr exPayloadCtx"
proof -
  have p: "PAYLOAD_URL_RE_test (path (event exPayloadCtx))" by (rule ex_path_matches)
  have g: "getItem exForeignStore
             (getCacheKey ''B2'' (getRouteFromPayloadUrl (path (event exPayloadCtx))))
             = Inr (Some exEntry)"
    by (simp add: ex_route getItem_def exForeignStore_def getCacheKey_def)
  have b: "buildId exEntry \<noteq> ''B2''" by (simp add: exEntry_def)
  from p g b build_isolation [OF p g b, of "cachedAt exEntry"] show ?thesis by blast
qed

subsection \<open>C3: errors are not cached\<close>

text \<open>
  C3. For a request of either kind, a response without a status code or with a status
  code of 400 or more makes the post-render hook a no-op: the context is unchanged,
  no write is handed to \<open>waitUntil\<close>, and so the store is as it was.
\<close>

theorem no_caching_of_errors:
  assumes "res_statusCode res = None \<or> (\<exists>sc. res_statusCode res = Some sc \<and> sc \<ge> 400)"
  shows "renderResponse build now res ctx = ctx
     \<and> phaseBWrites build now res ctx = []
     \<and> settle st (phaseBWrites build now res ctx) = st"
proof -
  have "renderResponse build now res ctx = ctx"
    using assms by (auto simp add: renderResponse_def)
  then show ?thesis by (simp add: phaseBWrites_unchanged)
qed

theorem no_caching_of_errors_witness:
  "res_statusCode exErrorResponse = Some 500
   \<and> renderResponse ''B1'' 5 exErrorResponse exPayloadCtx = exPayloadCtx
   \<and> renderResponse ''B1'' 5 exErrorResponse exHtmlCtx = exHtmlCtx
   \<and> renderResponse ''B1'' 5 (exErrorResponse\<lparr>res_statusCode := None\<rparr>) exHtmlCtx = exHtmlCtx
   \<and> settle exStore (phaseBWrites ''B1'' 5 exErrorResponse exPayloadCtx) = exStore"
proof -
  have h1: "res_statusCode exErrorResponse = None
            \<or> (\<exists>sc. res_statusCode exErrorResponse = Some sc \<and> sc \<ge> 400)"
    by (simp add: exErrorResponse_def)
  have h2: "res_statusCode (exErrorResponse\<lparr>res_statusCode := None\<rparr>) = None
            \<or> (\<exists>sc. res_statusCode (exErrorResponse\<lparr>res_statusCode := None\<rparr>) = Some sc
                     \<and> sc \<ge> 400)"
    by simp
  have s: "res_statusCode exErrorResponse = Some 500" by (simp add: exErrorResponse_def)
  from s no_caching_of_errors [OF h1, of "''B1''" 5 exPayloadCtx exStore]
    no_caching_of_errors [OF h1, of "''B1''" 5 exHtmlCtx exStore]
    no_caching_of_errors [OF h2, of "''B1''" 5 exHtmlCtx exStore]
  show ?thesis by blast
qed

subsection \<open>C4: the response of a cache hit\<close>

text \<open>
  C4, as amended. On a valid cache hit (data-only path, entry found, same build, age at
  most 120000 milliseconds) the hook sets the response to the entry's body, status code
  and headers together with the status message \<open>OK\<close>; the pipeline delivers exactly
  this response and does not call the renderer, whatever the renderer is.
\<close>

theorem cache_hit_response:
  assumes "PAYLOAD_URL_RE_test (path ev)"
    and "getItem st (getCacheKey build (getRouteFromPayloadUrl (path ev))) = Inr (Some cached)"
    and "buildId cached = build"
    and "now - cachedAt cached \<le> 120000"
  shows "renderBefore build st now \<lparr>event = ev, response = None\<rparr>
           = Inr \<lparr>event = ev,
                  response = Some \<lparr>res_body = StringBody (body cached),
                                   res_statusCode = Some (statusCode cached),
                                   res_statusMessage = Some ''OK'',
                                   res_headers = Some (headers cached)\<rparr>\<rparr>
     \<and> renderHandler build st now render ev
           = Inr \<lparr>delivered = \<lparr>res_body = StringBody (body cached),
                                res_statusCode = Some (statusCode cached),
                                res_statusMessage = Some ''OK'',
                                res_headers = Some (headers cached)\<rparr>,
                  rendered = False\<rparr>"
proof -
  let ?ctx = "\<lparr>event = ev, response = None\<rparr>"
  have p: "PAYLOAD_URL_RE_test (path (event ?ctx))" using assms(1) by simp
  have hook: "renderBefore build st now ?ctx
                = Inr (?ctx\<lparr>response := Some (hitResponse cached)\<rparr>)"
    using assms(3,4)
    by (simp add: renderBefore_payload [OF p] renderBeforeTry_found [OF assms(2)])
  then show ?thesis by (simp add: renderHandler_def hitResponse_def)
qed

theorem cache_hit_response_witness:
  "PAYLOAD_URL_RE_test (path exPayloadEvent)
   \<and> getItem exStore (getCacheKey ''B1'' (getRouteFromPayloadUrl (path exPayloadEvent)))
        = Inr (Some exEntry)
   \<and> buildId exEntry = ''B1''
   \<and> (cachedAt exEntry + 1000) - cachedAt exEntry \<le> 120000
   \<and> exHitOutcome
        = Inr \<lparr>delivered = \<lparr>res_body = StringBody ''[1]'', res_statusCode = Some 200,
                             res_statusMessage = Some ''OK'',
                             res_headers = Some payloadHeaders\<rparr>,
               rendered = False\<rparr>"
proof -
  have p: "PAYLOAD_URL_RE_test (path exPayloadEvent)"
    using ex_path_matches by (simp add: exPayloadCtx_def)
  have g: "getItem exStore (getCacheKey ''B1'' (getRouteFromPayloadUrl (path exPayloadEvent)))
        = Inr (Some exEntry)"
    using ex_route ex_lookup by (simp add: exPayloadCtx_def)
  have b: "buildId exEntry = ''B1''" by (simp add: exEntry_def)
  have a: "(cachedAt exEntry + 1000) - cachedAt exEntry \<le> 120000" by simp
  have "exHitOutcome
        = Inr \<lparr>delivered = \<lparr>res_body = StringBody ''[1]'', res_statusCode = Some 200,
                             res_statusMessage = Some ''OK'',
                             res_headers = Some payloadHeaders\<rparr>,
               rendered = False\<rparr>"
    unfolding exHitOutcome_def
    using cache_hit_response [OF p g b a, of "\<lambda>ev. Inl (JsError ''rendered'')"]
    by (simp add: exEntry_def)
  with p g b a show ?thesis by blast
qed

text \<open>
  The claim as stated lists body, status code and headers only. At the example hit the
  delivered response is not the one with these three fields and no status message.
\<close>

theorem cache_hit_response_counterexample:
  "exHitOutcome
     \<noteq> Inr \<lparr>delivered = \<lparr>res_body = StringBody (body exEntry),
                          res_statusCode = Some (statusCode exEntry),
                          res_statusMessage = None,
                          res_headers = Some (headers exEntry)\<rparr>,
            rendered = False\<rparr>"
proof -
  have "renderBefore ''B1'' exStore (cachedAt exEntry + 1000)
          \<lparr>event = exPayloadEvent, response = None\<rparr>
          = Inr (\<lparr>event = exPayloadEvent, response = None\<rparr>
                  \<lparr>response := Some (hitResponse exEntry)\<rparr>)"
    using ex_path_matches ex_route ex_lookup
    by (simp add: exPayloadCtx_def renderBefore_payload renderBeforeTry_found exEntry_def)
  then show ?thesis
    by (simp add: exHitOutcome_def renderHandler_def hitResponse_def)
qed

subsection \<open>C5: the Payload Serializer\<close>

text \<open>
  C5, as amended. For a render with a request event, the hook stashes an artifact if and
  only if server rendering was not disabled, neither the pipeline nor the payload
  carries an error, the data object has at least one key, and \<open>stringify\<close> succeeds on
  \<open>{data, prerenderedAt}\<close> with the reducer table (the empty table when there is
  none). The artifact is the serialization as body, status code 200, and the headers
  \<open>content-type: application/json;charset=utf-8\<close> (no space after the semicolon) and
  \<open>x-powered-by: Nuxt\<close>. When a condition fails the context is returned unchanged.
  The hook returns normally on every input, also when \<open>stringify\<close> throws.
\<close>

theorem serializer_stash:
  assumes "ssrEvent ssr = Some ev"
  shows "(\<forall>pl d b.
            payload ssr = Some pl \<and> payload_data pl = Some d \<and> Object_keys d \<noteq> []
            \<and> \<not> noSSR ssr \<and> \<not> ssrError ssr \<and> \<not> payload_error pl
            \<and> stringify \<lparr>data = d, prerenderedAt = payload_prerenderedAt pl\<rparr>
                 (nullish (payloadReducers ssr) []) = Inr b
          \<longrightarrow> appRendered stringify (Some ssr)
                = Inr (Some (ssr\<lparr>ssrEvent := Some (ev\<lparr>cachedPayloadResponse :=
                    Some \<lparr>body = b, statusCode = 200,
                          headers = [(''content-type'', ''application/json;charset=utf-8''),
                                     (''x-powered-by'', ''Nuxt'')]\<rparr>\<rparr>)\<rparr>)))
     \<and> (appRendered stringify (Some ssr) \<noteq> Inr (Some ssr)
          \<longrightarrow> (\<exists>pl d b.
                 payload ssr = Some pl \<and> payload_data pl = Some d \<and> Object_keys d \<noteq> []
                 \<and> \<not> noSSR ssr \<and> \<not> ssrError ssr \<and> \<not> payload_error pl
                 \<and> stringify \<lparr>data = d, prerenderedAt = payload_prerenderedAt pl\<rparr>
                      (nullish (payloadReducers ssr) []) = Inr b))
     \<and> (\<forall>s. \<exists>r. appRendered stringify s = Inr r)"
proof (intro conjI allI impI)
  fix pl d b
  assume "payload ssr = Some pl \<and> payload_data pl = Some d \<and> Object_keys d \<noteq> []
            \<and> \<not> noSSR ssr \<and> \<not> ssrError ssr \<and> \<not> payload_error pl
            \<and> stringify \<lparr>data = d, prerenderedAt = payload_prerenderedAt pl\<rparr>
                 (nullish (payloadReducers ssr) []) = Inr b"
  then show "appRendered stringify (Some ssr)
                = Inr (Some (ssr\<lparr>ssrEvent := Some (ev\<lparr>cachedPayloadResponse :=
                    Some \<lparr>body = b, statusCode = 200,
                          headers = [(''content-type'', ''application/json;charset=utf-8''),
                                     (''x-powered-by'', ''Nuxt'')]\<rparr>\<rparr>)\<rparr>))"
    using appRendered_stash [OF assms, of pl d stringify b] by blast
next
  assume "appRendered stringify (Some ssr) \<noteq> Inr (Some ssr)"
  from appRendered_changed [OF this]
  show "\<exists>pl d b.
                 payload ssr = Some pl \<and> payload_data pl = Some d \<and> Object_keys d \<noteq> []
                 \<and> \<not> noSSR ssr \<and> \<not> ssrError ssr \<and> \<not> payload_error pl
                 \<and> stringify \<lparr>data = d, prerenderedAt = payload_prerenderedAt pl\<rparr>
                      (nullish (payloadReducers ssr) []) = Inr b"
    by blast
next
  fix s
  show "\<exists>r. appRendered stringify s = Inr r" by (rule appRendered_total)
qed

theorem serializer_stash_witness:
  "ssrEvent exSsr = Some exSsrEvent
   \<and> appRendered exStringify (Some exSsr)
       = Inr (Some (exSsr\<lparr>ssrEvent := Some (exSsrEvent\<lparr>cachedPayloadResponse :=
           Some \<lparr>body = ''k'', statusCode = 200,
                 headers = [(''content-type'', ''application/json;charset=utf-8''),
                            (''x-powered-by'', ''Nuxt'')]\<rparr>\<rparr>)\<rparr>))
   \<and> appRendered exStringify (Some (exSsr\<lparr>noSSR := True\<rparr>))
       = Inr (Some (exSsr\<lparr>noSSR := True\<rparr>))"
proof -
  have e: "ssrEvent exSsr = Some exSsrEvent" by (simp add: exSsr_def)
  have e': "ssrEvent (exSsr\<lparr>noSSR := True\<rparr>) = Some exSsrEvent" by (simp add: exSsr_def)
  have r1: "appRendered exStringify (Some exSsr)
       = Inr (Some (exSsr\<lparr>ssrEvent := Some (exSsrEvent\<lparr>cachedPayloadResponse :=
           Some \<lparr>body = ''k'', statusCode = 200,
                 headers = [(''content-type'', ''application/json;charset=utf-8''),
                            (''x-powered-by'', ''Nuxt'')]\<rparr>\<rparr>)\<rparr>))"
    using serializer_stash [OF e, of exStringify] ex_stash_conditions by blast
  have "\<not> (\<exists>pl d b. payload (exSsr\<lparr>noSSR := True\<rparr>) = Some pl
             \<and> payload_data pl = Some d \<and> Object_keys d \<noteq> []
             \<and> \<not> noSSR (exSsr\<lparr>noSSR := True\<rparr>) \<and> \<not> ssrError (exSsr\<lparr>noSSR := True\<rparr>)
             \<and> \<not> payload_error pl
             \<and> exStringify \<lparr>data = d, prerenderedAt = payload_prerenderedAt pl\<rparr>
                  (nullish (payloadReducers (exSsr\<lparr>noSSR := True\<rparr>)) []) = Inr b)"
    by simp
  with serializer_stash [OF e', of exStringify]
  have r2: "appRendered exStringify (Some (exSsr\<lparr>noSSR := True\<rparr>))
              = Inr (Some (exSsr\<lparr>noSSR := True\<rparr>))"
    by blast
  from e r1 r2 show ?thesis by blast
qed

text \<open>
  The claim as stated gives the content type with a space after the semicolon. The
  artifact stashed at the example render has the header without the space, so it is
  not the artifact of the claim.
\<close>

theorem serializer_stash_counterexample:
  "appRendered exStringify (Some exSsr)
     = Inr (Some (exSsr\<lparr>ssrEvent := Some (exSsrEvent\<lparr>cachedPayloadResponse :=
         Some \<lparr>body = ''k'', statusCode = 200,
               headers = [(''content-type'', ''application/json;charset=utf-8''),
                          (''x-powered-by'', ''Nuxt'')]\<rparr>\<rparr>)\<rparr>))
   \<and> appRendered exStringify (Some exSsr)
     \<noteq> Inr (Some (exSsr\<lparr>ssrEvent := Some (exSsrEvent\<lparr>cachedPayloadResponse :=
         Some \<lparr>body = ''k'', statusCode = 200,
               headers = [(''content-type'', ''application/json; charset=utf-8''),
                          (''x-powered-by'', ''Nuxt'')]\<rparr>\<rparr>)\<rparr>))"
proof -
  have "appRendered exStringify (Some exSsr)
       = Inr (Some (exSsr\<lparr>ssrEvent := Some (exSsrEvent\<lparr>cachedPayloadResponse :=
           Some \<lparr>body = ''k'', statusCode = 200,
                 headers = [(''content-type'', ''application/json;charset=utf-8''),
                            (''x-powered-by'', ''Nuxt'')]\<rparr>\<rparr>)\<rparr>))"
    by (rule appRendered_stash [where pl = exNuxtPayload and d = "[(''k'', 1)]"])
       (simp_all add: exSsr_def exNuxtPayload_def Object_keys_def exStringify_def)
  then show ?thesis by (simp add: exSsr_def exSsrEvent_def)
qed

subsection \<open>C6: caching the response of a data-only request\<close>

text \<open>
  C6. On a data-only request whose response has a status code below 400 (and not the
  falsy 0) and a string body, the post-render hook hands exactly one write to
  \<open>waitUntil\<close>: under the cache key of the route path of the request, the entry with
  that body, that status code, the two fixed headers, the time of the call and the
  running build; when the store accepts the write, the entry is what the store holds
  under the key. With a body that is not a string the hook changes nothing. The hook
  has no operation that throws, so it is a total function without an error result.
\<close>

theorem data_only_response_cached:
  assumes "PAYLOAD_URL_RE_test (path (event ctx))"
    and "res_statusCode res = Some sc" and "sc \<noteq> 0" and "sc < 400"
  shows "(\<forall>b. res_body res = StringBody b \<longrightarrow>
            phaseBWrites build now res ctx
              = [(getCacheKey build (getRouteFromPayloadUrl (path (event ctx))),
                  \<lparr>body = b, statusCode = sc,
                   headers = [(''content-type'', ''application/json;charset=utf-8''),
                              (''x-powered-by'', ''Nuxt'')],
                   cachedAt = now, buildId = build\<rparr>)]
          \<and> (\<forall>st. setItemFault st
                      (getCacheKey build (getRouteFromPayloadUrl (path (event ctx)))) = None \<longrightarrow>
                 items (settle st (phaseBWrites build now res ctx))
                   (getCacheKey build (getRouteFromPayloadUrl (path (event ctx))))
                   = Some \<lparr>body = b, statusCode = sc,
                           headers = [(''content-type'', ''application/json;charset=utf-8''),
                                      (''x-powered-by'', ''Nuxt'')],
                           cachedAt = now, buildId = build\<rparr>))
     \<and> (res_body res = NonStringBody \<longrightarrow>
            renderResponse build now res ctx = ctx
          \<and> phaseBWrites build now res ctx = [])"
proof -
  note rr = renderResponse_ok_status [OF assms(2,3,4), of build now ctx]
  let ?k = "getCacheKey build (getRouteFromPayloadUrl (path (event ctx)))"
  have str: "phaseBWrites build now res ctx
              = [(?k, \<lparr>body = b, statusCode = sc,
                   headers = [(''content-type'', ''application/json;charset=utf-8''),
                              (''x-powered-by'', ''Nuxt'')],
                   cachedAt = now, buildId = build\<rparr>)]"
    if "res_body res = StringBody b" for b
    using that assms(1)
    by (simp add: phaseBWrites_def rr waitUntil_cachePayload payloadHeaders_def)
  have non: "renderResponse build now res ctx = ctx" if "res_body res = NonStringBody"
    using that assms(1) by (simp add: rr)
  have stor: "items (settle st (phaseBWrites build now res ctx)) ?k
                = Some \<lparr>body = b, statusCode = sc,
                         headers = [(''content-type'', ''application/json;charset=utf-8''),
                                    (''x-powered-by'', ''Nuxt'')],
                         cachedAt = now, buildId = build\<rparr>"
    if "res_body res = StringBody b" and "setItemFault st ?k = None" for b st
    by (simp only: str [OF that(1)] settle_single [OF that(2)])
  have none: "phaseBWrites build now res ctx = []" if "res_body res = NonStringBody"
    by (rule phaseBWrites_unchanged) (rule non [OF that])
  from str stor non none show ?thesis by blast
qed

theorem data_only_response_cached_witness:
  "PAYLOAD_URL_RE_test (path (event exPayloadCtx))
   \<and> res_statusCode exOkResponse = Some 200
   \<and> res_body exOkResponse = StringBody ''[2]''
   \<and> phaseBWrites ''B1'' 7 exOkResponse exPayloadCtx
        = [(''B1:/a/b'', \<lparr>body = ''[2]'', statusCode = 200,
               headers = [(''content-type'', ''application/json;charset=utf-8''),
                          (''x-powered-by'', ''Nuxt'')],
               cachedAt = 7, buildId = ''B1''\<rparr>)]
   \<and> items (settle exStore (phaseBWrites ''B1'' 7 exOkResponse exPayloadCtx)) ''B1:/a/b''
        = Some \<lparr>body = ''[2]'', statusCode = 200,
               headers = [(''content-type'', ''application/json;charset=utf-8''),
                          (''x-powered-by'', ''Nuxt'')],
               cachedAt = 7, buildId = ''B1''\<rparr>
   \<and> renderResponse ''B1'' 7 (exOkResponse\<lparr>res_body := NonStringBody\<rparr>) exPayloadCtx
        = exPayloadCtx"
proof -
  have p: "PAYLOAD_URL_RE_test (path (event exPayloadCtx))" by (rule ex_path_matches)
  have s: "res_statusCode exOkResponse = Some 200" by (simp add: exOkResponse_def)
  have s': "res_statusCode (exOkResponse\<lparr>res_body := NonStringBody\<rparr>) = Some 200"
    by (simp add: exOkResponse_def)
  have b: "res_body exOkResponse = StringBody ''[2]''" by (simp add: exOkResponse_def)
  have k: "getCacheKey ''B1'' (getRouteFromPayloadUrl (path (event exPayloadCtx))) = ''B1:/a/b''"
    by (simp add: ex_route getCacheKey_def)
  have f: "setItemFault exStore ''B1:/a/b'' = None" by (simp add: exStore_def)
  have n0: "(200::int) \<noteq> 0" and n4: "(200::int) < 400" by simp_all
  note t1 = data_only_response_cached [OF p s n0 n4, of "''B1''" 7, unfolded k]
  note t2 = data_only_response_cached [OF p s' n0 n4, of "''B1''" 7]
  from t1 b have w: "phaseBWrites ''B1'' 7 exOkResponse exPayloadCtx
        = [(''B1:/a/b'', \<lparr>body = ''[2]'', statusCode = 200,
               headers = [(''content-type'', ''application/json;charset=utf-8''),
                          (''x-powered-by'', ''Nuxt'')],
               cachedAt = 7, buildId = ''B1''\<rparr>)]" by blast
  from t1 b f have i:
    "items (settle exStore (phaseBWrites ''B1'' 7 exOkResponse exPayloadCtx)) ''B1:/a/b''
        = Some \<lparr>body = ''[2]'', statusCode = 200,
               headers = [(''content-type'', ''application/json;charset=utf-8''),
                          (''x-powered-by'', ''Nuxt'')],
               cachedAt = 7, buildId = ''B1''\<rparr>" by blast
  from t2 have n: "renderResponse ''B1'' 7 (exOkResponse\<lparr>res_body := NonStringBody\<rparr>) exPayloadCtx
        = exPayloadCtx" by simp
  from p s b w i n show ?thesis by blast
qed

subsection \<open>C7: route paths\<close>

text \<open>
  C7. The route path of \<open>/a/b/_payload.json?x=1\<close> and of \<open>/a/b/_payload.json\<close> is
  \<open>/a/b\<close>; the route path of \<open>/\<close> is \<open>/\<close> under both derivations; the HTML paths
  \<open>/a/b/\<close> and \<open>/a/b\<close> both give \<open>/a/b\<close>. In general a query after the data-only
  suffix does not change the route path, and one trailing slash after a non-empty HTML
  path that does not itself end in a slash does not either.
\<close>

theorem route_derivation:
  "getRouteFromPayloadUrl ''/a/b/_payload.json?x=1'' = ''/a/b''
   \<and> getRouteFromPayloadUrl ''/a/b/_payload.json'' = ''/a/b''
   \<and> getRouteFromPayloadUrl ''/'' = ''/''
   \<and> htmlRoutePath ''/'' = ''/''
   \<and> htmlRoutePath ''/a/b/'' = ''/a/b''
   \<and> htmlRoutePath ''/a/b'' = ''/a/b''
   \<and> (\<forall>p q. CHR ''?'' \<notin> set p \<and> dotStarEnd q \<longrightarrow>
          getRouteFromPayloadUrl (p @ ''/_payload.json'' @ CHR ''?'' # q)
            = getRouteFromPayloadUrl (p @ ''/_payload.json''))
   \<and> (\<forall>p. CHR ''?'' \<notin> set p \<and> p \<noteq> [] \<and> last p \<noteq> CHR ''/'' \<longrightarrow>
          htmlRoutePath (p @ ''/'') = htmlRoutePath p)"
proof -
  have c1: "getRouteFromPayloadUrl ''/a/b/_payload.json?x=1'' = ''/a/b''"
    by (simp add: getRouteFromPayloadUrl_def substring_def lastIndexOf_def dotStarEnd_def
        isLineTerminator_def Let_def)
  have c2: "getRouteFromPayloadUrl ''/a/b/_payload.json'' = ''/a/b''"
    by (simp add: getRouteFromPayloadUrl_def substring_def lastIndexOf_def dotStarEnd_def
        isLineTerminator_def Let_def)
  have c3: "getRouteFromPayloadUrl ''/'' = ''/''"
    by (simp add: getRouteFromPayloadUrl_def substring_def lastIndexOf_def Let_def)
  have c4: "htmlRoutePath ''/'' = ''/''"
    by (simp add: htmlRoutePath_def)
  have c5: "htmlRoutePath ''/a/b/'' = ''/a/b''"
    by (simp add: htmlRoutePath_def stripTrailingSlash_def)
  have c6: "htmlRoutePath ''/a/b'' = ''/a/b''"
    by (simp add: htmlRoutePath_def stripTrailingSlash_def)
  have g1: "\<forall>p q. CHR ''?'' \<notin> set p \<and> dotStarEnd q \<longrightarrow>
          getRouteFromPayloadUrl (p @ ''/_payload.json'' @ CHR ''?'' # q)
            = getRouteFromPayloadUrl (p @ ''/_payload.json'')"
    using getRouteFromPayloadUrl_query getRouteFromPayloadUrl_plain by presburger
  have g2: "\<forall>p. CHR ''?'' \<notin> set p \<and> p \<noteq> [] \<and> last p \<noteq> CHR ''/'' \<longrightarrow>
          htmlRoutePath (p @ ''/'') = htmlRoutePath p"
    using htmlRoutePath_trailing_slash by presburger
  from c1 c2 c3 c4 c5 c6 g1 g2 show ?thesis by blast
qed

theorem route_derivation_witness:
  "CHR ''?'' \<notin> set ''/a/b'' \<and> dotStarEnd ''x=1'' \<and> last ''/a/b'' \<noteq> CHR ''/''
   \<and> getRouteFromPayloadUrl (''/a/b'' @ ''/_payload.json'' @ CHR ''?'' # ''x=1'')
        = getRouteFromPayloadUrl (''/a/b'' @ ''/_payload.json'')
   \<and> htmlRoutePath (''/a/b'' @ ''/'') = htmlRoutePath ''/a/b''"
proof -
  have h1: "CHR ''?'' \<notin> set ''/a/b''" by simp
  have h2: "dotStarEnd ''x=1''" by (simp add: dotStarEnd_def isLineTerminator_def)
  have h3: "last ''/a/b'' \<noteq> CHR ''/''" by simp
  have h4: "''/a/b'' \<noteq> []" by simp
  from route_derivation have
    g1: "\<forall>p q. CHR ''?'' \<notin> set p \<and> dotStarEnd q \<longrightarrow>
          getRouteFromPayloadUrl (p @ ''/_payload.json'' @ CHR ''?'' # q)
            = getRouteFromPayloadUrl (p @ ''/_payload.json'')"
    and g2: "\<forall>p. CHR ''?'' \<notin> set p \<and> p \<noteq> [] \<and> last p \<noteq> CHR ''/'' \<longrightarrow>
          htmlRoutePath (p @ ''/'') = htmlRoutePath p"
    by blast+
  from g1 h1 h2 have r1:
    "getRouteFromPayloadUrl (''/a/b'' @ ''/_payload.json'' @ CHR ''?'' # ''x=1'')
       = getRouteFromPayloadUrl (''/a/b'' @ ''/_payload.json'')" by blast
  from g2 h1 h3 h4 have r2: "htmlRoutePath (''/a/b'' @ ''/'') = htmlRoutePath ''/a/b''" by blast
  from h1 h2 h3 r1 r2 show ?thesis by blast
qed

subsection \<open>C8: a failed lookup\<close>

text \<open>
  C8. On a data-only request whose cache lookup throws, the hook returns normally and
  sets no response, so the pipeline calls the renderer and delivers what the renderer
  gives: the request ends as it would without any cache, and only an error of the
  renderer itself can fail it.
\<close>

theorem lookup_error_falls_through:
  assumes "PAYLOAD_URL_RE_test (path ev)"
    and "getItem st (getCacheKey build (getRouteFromPayloadUrl (path ev))) = Inl err"
  shows "renderBefore build st now \<lparr>event = ev, response = None\<rparr>
           = Inr \<lparr>event = ev, response = None\<rparr>
     \<and> renderHandler build st now render ev
           = (case render ev of
                Inl e \<Rightarrow> Inl e
              | Inr r \<Rightarrow> Inr \<lparr>delivered = r, rendered = True\<rparr>)"
proof -
  let ?ctx = "\<lparr>event = ev, response = None\<rparr>"
  have p: "PAYLOAD_URL_RE_test (path (event ?ctx))" using assms(1) by simp
  have "renderBeforeTry build st now (getCacheKey build (getRouteFromPayloadUrl (path ev))) ?ctx
          = Inl err"
    using assms(2) by (simp add: renderBeforeTry_def)
  then have hook: "renderBefore build st now ?ctx = Inr ?ctx"
    by (simp add: renderBefore_payload [OF p])
  then show ?thesis by (simp add: renderHandler_def)
qed

theorem lookup_error_falls_through_witness:
  "PAYLOAD_URL_RE_test (path exPayloadEvent)
   \<and> getItem exFailingStore
        (getCacheKey ''B1'' (getRouteFromPayloadUrl (path exPayloadEvent)))
        = Inl (JsError ''store unreachable'')
   \<and> renderBefore ''B1'' exFailingStore (cachedAt exEntry + 1000) exPayloadCtx = Inr exPayloadCtx
   \<and> renderHandler ''B1'' exFailingStore (cachedAt exEntry + 1000) exRender exPayloadEvent
        = Inr \<lparr>delivered = \<lparr>res_body = StringBody ''[2]'', res_statusCode = Some 200,
                       res_statusMessage = None, res_headers = None\<rparr>, rendered = True\<rparr>"
proof -
  have p: "PAYLOAD_URL_RE_test (path exPayloadEvent)"
    using ex_path_matches by (simp add: exPayloadCtx_def)
  have g: "getItem exFailingStore
             (getCacheKey ''B1'' (getRouteFromPayloadUrl (path exPayloadEvent)))
             = Inl (JsError ''store unreachable'')"
    by (simp add: getItem_def exFailingStore_def)
  from p g lookup_error_falls_through [OF p g, of "cachedAt exEntry + 1000" exRender]
  show ?thesis by (simp add: exPayloadCtx_def exRender_def)
qed

subsection \<open>C9: the stashed artifact is cleared\<close>

text \<open>
  C9. When the post-render hook consumes a stashed artifact (status code below 400, not
  a data-only request, HTML response, cache-eligible route, artifact present), it hands
  the entry built from the artifact to \<open>waitUntil\<close> and the slot of the request context
  is empty afterwards.
\<close>

theorem artifact_cleared_after_use:
  assumes "res_statusCode res = Some sc" and "sc \<noteq> 0" and "sc < 400"
    and "\<not> PAYLOAD_URL_RE_test (path (event ctx))"
    and "isHtmlResponse res" and "isISRRoute (event ctx)"
    and "cachedPayloadResponse (event ctx) = Some art"
  shows "phaseBWrites build now res ctx
           = [(getCacheKey build (htmlRoutePath (path (event ctx))),
               \<lparr>body = body art, statusCode = statusCode art, headers = headers art,
                cachedAt = now, buildId = build\<rparr>)]
     \<and> cachedPayloadResponse (event (renderResponse build now res ctx)) = None"
  using assms(4,5,6,7)
  by (simp add: phaseBWrites_def renderResponse_ok_status [OF assms(1,2,3)]
      waitUntil_cachePayload)

theorem artifact_cleared_after_use_witness:
  "res_statusCode exHtmlResponse = Some 302
   \<and> \<not> PAYLOAD_URL_RE_test (path (event exHtmlCtx))
   \<and> isHtmlResponse exHtmlResponse \<and> isISRRoute (event exHtmlCtx)
   \<and> cachedPayloadResponse (event exHtmlCtx) = Some exArtifact
   \<and> phaseBWrites ''B1'' 7 exHtmlResponse exHtmlCtx
        = [(''B1:/a/b'', \<lparr>body = ''[4]'', statusCode = 200, headers = payloadHeaders,
                          cachedAt = 7, buildId = ''B1''\<rparr>)]
   \<and> cachedPayloadResponse (event (renderResponse ''B1'' 7 exHtmlResponse exHtmlCtx)) = None"
proof -
  have s: "res_statusCode exHtmlResponse = Some 302" by (simp add: exHtmlResponse_def)
  have p: "\<not> PAYLOAD_URL_RE_test (path (event exHtmlCtx))"
    by (simp add: exHtmlCtx_def exHtmlEvent_def payloadSuffixHere_def)
  have h: "isHtmlResponse exHtmlResponse" by (simp add: exHtmlResponse_def isHtmlResponse_def)
  have i: "isISRRoute (event exHtmlCtx)"
    by (simp add: exHtmlCtx_def exHtmlEvent_def isISRRoute_def)
  have a: "cachedPayloadResponse (event exHtmlCtx) = Some exArtifact"
    by (simp add: exHtmlCtx_def exHtmlEvent_def)
  have k: "getCacheKey ''B1'' (htmlRoutePath (path (event exHtmlCtx))) = ''B1:/a/b''"
    by (simp add: exHtmlCtx_def exHtmlEvent_def getCacheKey_def htmlRoutePath_def
        stripTrailingSlash_def dotStarEnd_def isLineTerminator_def)
  have n0: "(302::int) \<noteq> 0" and n4: "(302::int) < 400" by simp_all
  from s p h i a artifact_cleared_after_use [OF s n0 n4 p h i a, of "''B1''" 7, unfolded k]
  show ?thesis by (simp add: exArtifact_def)
qed

subsection \<open>C10: entries from HTML renders carry status 200\<close>

text \<open>
  C10. Let the Serializer stash an artifact on a request that had none, and let the
  post-render hook then see an HTML response with any truthy status code below 400 on
  a cache-eligible route. The one entry that the hook hands to \<open>waitUntil\<close> has status
  code 200 and the two fixed JSON headers, whatever the status code of the HTML
  response. Once the store has accepted the write, a data-only request for the same
  route within the grace period is answered from the entry with status code 200.
\<close>

theorem html_render_entry_status:
  assumes "ssrEvent ssr = Some ev" and "cachedPayloadResponse ev = None"
    and "appRendered stringify (Some ssr) = Inr (Some ssr')"
    and "ssrEvent ssr' = Some ev'" and "cachedPayloadResponse ev' = Some art"
    and "res_statusCode res = Some sc" and "sc \<noteq> 0" and "sc < 400"
    and "\<not> PAYLOAD_URL_RE_test (path ev')" and "isHtmlResponse res" and "isISRRoute ev'"
  shows "phaseBWrites build now res \<lparr>event = ev', response = r\<rparr>
           = [(getCacheKey build (htmlRoutePath (path ev')),
               \<lparr>body = body art, statusCode = 200,
                headers = [(''content-type'', ''application/json;charset=utf-8''),
                           (''x-powered-by'', ''Nuxt'')],
                cachedAt = now, buildId = build\<rparr>)]
     \<and> (\<forall>st later pev.
           setItemFault st (getCacheKey build (htmlRoutePath (path ev'))) = None
           \<and> getItemFault st (getCacheKey build (htmlRoutePath (path ev'))) = None
           \<and> PAYLOAD_URL_RE_test (path pev)
           \<and> getRouteFromPayloadUrl (path pev) = htmlRoutePath (path ev')
           \<and> later - now \<le> 120000
         \<longrightarrow> renderBefore build
               (settle st (phaseBWrites build now res \<lparr>event = ev', response = r\<rparr>))
               later \<lparr>event = pev, response = None\<rparr>
             = Inr \<lparr>event = pev,
                    response = Some \<lparr>res_body = StringBody (body art),
                       res_statusCode = Some 200,
                       res_statusMessage = Some ''OK'',
                       res_headers = Some [(''content-type'', ''application/json;charset=utf-8''),
                                           (''x-powered-by'', ''Nuxt'')]\<rparr>\<rparr>)"
proof -
  let ?ctx = "\<lparr>event = ev', response = r\<rparr>"
  let ?k = "getCacheKey build (htmlRoutePath (path ev'))"
  let ?hs = "[(''content-type'', ''application/json;charset=utf-8''),
              (''x-powered-by'', ''Nuxt'')]"
  let ?entry = "\<lparr>body = body art, statusCode = 200, headers = ?hs,
                 cachedAt = now, buildId = build\<rparr>"
  have art: "statusCode art = 200" "headers art = ?hs"
    using serializer_artifact [OF assms(1,2,3,4,5)] by simp_all
  have w: "phaseBWrites build now res ?ctx = [(?k, ?entry)]"
    using assms(9,10,11,5) art
    by (simp add: phaseBWrites_def renderResponse_ok_status [OF assms(6,7,8)]
        waitUntil_cachePayload)
  have hit: "renderBefore build (settle st (phaseBWrites build now res ?ctx)) later
               \<lparr>event = pev, response = None\<rparr>
             = Inr \<lparr>event = pev,
                    response = Some \<lparr>res_body = StringBody (body art),
                       res_statusCode = Some 200, res_statusMessage = Some ''OK'',
                       res_headers = Some ?hs\<rparr>\<rparr>"
    if f: "setItemFault st ?k = None" "getItemFault st ?k = None"
      and p: "PAYLOAD_URL_RE_test (path pev)"
      and rt: "getRouteFromPayloadUrl (path pev) = htmlRoutePath (path ev')"
      and age: "later - now \<le> 120000"
    for st later pev
  proof -
    have "getItem (settle st [(?k, ?entry)]) ?k = Inr (Some ?entry)"
      by (rule getItem_settle_single [OF f])
    then have g: "getItem (settle st (phaseBWrites build now res ?ctx))
                    (getCacheKey build (getRouteFromPayloadUrl (path pev)))
                  = Inr (Some ?entry)"
      by (simp only: w rt)
    have p': "PAYLOAD_URL_RE_test (path (event \<lparr>event = pev, response = None\<rparr>))"
      using p by simp
    show ?thesis
      using age
      by (simp add: renderBefore_payload [OF p'] renderBeforeTry_found [OF g] hitResponse_def)
  qed
  from w hit show ?thesis by blast
qed

theorem html_render_entry_status_witness:
  "ssrEvent exSsr = Some exSsrEvent \<and> cachedPayloadResponse exSsrEvent = None
   \<and> appRendered exStringify (Some exSsr) = Inr (Some (exSsr\<lparr>ssrEvent := Some exStashedEvent\<rparr>))
   \<and> res_statusCode exHtmlResponse = Some 302
   \<and> \<not> PAYLOAD_URL_RE_test (path exStashedEvent)
   \<and> isHtmlResponse exHtmlResponse \<and> isISRRoute exStashedEvent
   \<and> phaseBWrites ''B1'' 7 exHtmlResponse \<lparr>event = exStashedEvent, response = None\<rparr>
        = [(''B1:/a/b'',
            \<lparr>body = ''k'', statusCode = 200,
             headers = [(''content-type'', ''application/json;charset=utf-8''),
                        (''x-powered-by'', ''Nuxt'')],
             cachedAt = 7, buildId = ''B1''\<rparr>)]
   \<and> renderBefore ''B1''
         (settle exStore
            (phaseBWrites ''B1'' 7 exHtmlResponse \<lparr>event = exStashedEvent, response = None\<rparr>))
         1007 \<lparr>event = exPayloadEvent, response = None\<rparr>
        = Inr \<lparr>event = exPayloadEvent,
               response = Some \<lparr>res_body = StringBody ''k'',
                  res_statusCode = Some 200,
                  res_statusMessage = Some ''OK'',
                  res_headers = Some [(''content-type'', ''application/json;charset=utf-8''),
                                      (''x-powered-by'', ''Nuxt'')]\<rparr>\<rparr>"
proof -
  have a1: "ssrEvent exSsr = Some exSsrEvent" by (simp add: exSsr_def)
  have a2: "cachedPayloadResponse exSsrEvent = None" by (simp add: exSsrEvent_def)
  have a3: "appRendered exStringify (Some exSsr)
              = Inr (Some (exSsr\<lparr>ssrEvent := Some exStashedEvent\<rparr>))"
    unfolding exStashedEvent_def
    by (rule appRendered_stash [where pl = exNuxtPayload and d = "[(''k'', 1)]"])
       (simp_all add: exSsr_def exNuxtPayload_def Object_keys_def exStringify_def)
  have a4: "ssrEvent (exSsr\<lparr>ssrEvent := Some exStashedEvent\<rparr>) = Some exStashedEvent" by simp
  have a5: "cachedPayloadResponse exStashedEvent
              = Some \<lparr>body = ''k'', statusCode = 200,
                   headers = [(''content-type'', ''application/json;charset=utf-8''),
                              (''x-powered-by'', ''Nuxt'')]\<rparr>"
    by (simp add: exStashedEvent_def)
  have a6: "res_statusCode exHtmlResponse = Some 302" by (simp add: exHtmlResponse_def)
  have n0: "(302::int) \<noteq> 0" and n4: "(302::int) < 400" by simp_all
  have a9: "\<not> PAYLOAD_URL_RE_test (path exStashedEvent)"
    by (simp add: exStashedEvent_def exSsrEvent_def payloadSuffixHere_def)
  have a10: "isHtmlResponse exHtmlResponse"
    by (simp add: exHtmlResponse_def isHtmlResponse_def)
  have a11: "isISRRoute exStashedEvent"
    by (simp add: exStashedEvent_def exSsrEvent_def isISRRoute_def)
  have k: "getCacheKey ''B1'' (htmlRoutePath (path exStashedEvent)) = ''B1:/a/b''"
    by (simp add: exStashedEvent_def exSsrEvent_def getCacheKey_def htmlRoutePath_def
        stripTrailingSlash_def dotStarEnd_def isLineTerminator_def)
  have rt: "htmlRoutePath (path exStashedEvent) = ''/a/b''"
    by (simp add: exStashedEvent_def exSsrEvent_def htmlRoutePath_def
        stripTrailingSlash_def dotStarEnd_def isLineTerminator_def)
  have later: "setItemFault exStore ''B1:/a/b'' = None
           \<and> getItemFault exStore ''B1:/a/b'' = None
           \<and> PAYLOAD_URL_RE_test (path exPayloadEvent)
           \<and> getRouteFromPayloadUrl (path exPayloadEvent) = ''/a/b''
           \<and> (1007::int) - 7 \<le> 120000"
    using ex_path_matches ex_route by (simp add: exStore_def exPayloadCtx_def)
  note t = html_render_entry_status [OF a1 a2 a3 a4 a5 a6 n0 n4 a9 a10 a11, of "''B1''" 7 None]
  from t have w: "phaseBWrites ''B1'' 7 exHtmlResponse \<lparr>event = exStashedEvent, response = None\<rparr>
        = [(''B1:/a/b'',
            \<lparr>body = ''k'', statusCode = 200,
             headers = [(''content-type'', ''application/json;charset=utf-8''),
                        (''x-powered-by'', ''Nuxt'')],
             cachedAt = 7, buildId = ''B1''\<rparr>)]"
    by (simp add: k)
  from t have
    "setItemFault exStore (getCacheKey ''B1'' (htmlRoutePath (path exStashedEvent))) = None
     \<and> getItemFault exStore (getCacheKey ''B1'' (htmlRoutePath (path exStashedEvent))) = None
     \<and> PAYLOAD_URL_RE_test (path exPayloadEvent)
     \<and> getRouteFromPayloadUrl (path exPayloadEvent) = htmlRoutePath (path exStashedEvent)
     \<and> (1007::int) - 7 \<le> 120000
     \<longrightarrow> renderBefore ''B1''
           (settle exStore
              (phaseBWrites ''B1'' 7 exHtmlResponse
                 \<lparr>event = exStashedEvent, response = None\<rparr>))
           1007 \<lparr>event = exPayloadEvent, response = None\<rparr>
         = Inr \<lparr>event = exPayloadEvent,
                response = Some \<lparr>res_body = StringBody ''k'',
                   res_statusCode = Some 200,
                   res_statusMessage = Some ''OK'',
                   res_headers = Some [(''content-type'', ''application/json;charset=utf-8''),
                                       (''x-powered-by'', ''Nuxt'')]\<rparr>\<rparr>"
    by (elim conjE allE [where x = exStore])
       (erule allE [where x = 1007], erule allE [where x = exPayloadEvent], simp)
  with later have h: "renderBefore ''B1''
         (settle exStore
            (phaseBWrites ''B1'' 7 exHtmlResponse \<lparr>event = exStashedEvent, response = None\<rparr>))
         1007 \<lparr>event = exPayloadEvent, response = None\<rparr>
        = Inr \<lparr>event = exPayloadEvent,
               response = Some \<lparr>res_body = StringBody ''k'',
                  res_statusCode = Some 200,
                  res_statusMessage = Some ''OK'',
                  res_headers = Some [(''content-type'', ''application/json;charset=utf-8''),
                                      (''x-powered-by'', ''Nuxt'')]\<rparr>\<rparr>"
    by (simp add: rt getCacheKey_def)
  from a1 a2 a3 a6 a9 a10 a11 w h show ?thesis by blast
qed

end
